theory Spec2Isabelle
  imports Main
begin

section \<open>Python string primitives used by disk.py\<close>

text \<open>
  A Python \<open>str\<close> is modelled as a \<open>string\<close> whose characters stand for the code
  points 0..255. The classes below are Python's \<open>str.isspace\<close> and the regular
  expression class \<open>\w\<close> restricted to that range.
\<close>

definition isspace :: "char \<Rightarrow> bool" where
  "isspace c = (of_char c \<in> {9, 10, 11, 12, 13, 28, 29, 30, 31, 32, 133, 160 :: nat})"

definition isword :: "char \<Rightarrow> bool" where
  "isword c =
     (let n = (of_char c :: nat) in
        (48 \<le> n \<and> n \<le> 57) \<or> (65 \<le> n \<and> n \<le> 90) \<or> n = 95 \<or> (97 \<le> n \<and> n \<le> 122)
        \<or> n \<in> {170, 178, 179, 181, 185, 186, 188, 189, 190}
        \<or> (192 \<le> n \<and> n \<le> 214) \<or> (216 \<le> n \<and> n \<le> 246) \<or> 248 \<le> n)"

text \<open>\<open>s.split(sep)\<close> for a one-character separator: never the empty list.\<close>

fun str_split :: "char \<Rightarrow> string \<Rightarrow> string list" where
  "str_split sep [] = [[]]"
| "str_split sep (c # cs) =
     (if c = sep then [] # str_split sep cs
      else (case str_split sep cs of
              [] \<Rightarrow> [[c]]
            | w # ws \<Rightarrow> (c # w) # ws))"

text \<open>\<open>s.split()\<close>: maximal runs of non-whitespace; \<open>w\<close> is the run being read.\<close>

fun ws_tokens :: "string \<Rightarrow> string \<Rightarrow> string list" where
  "ws_tokens w [] = (if w = [] then [] else [w])"
| "ws_tokens w (c # cs) =
     (if isspace c then (if w = [] then ws_tokens [] cs else w # ws_tokens [] cs)
      else ws_tokens (w @ [c]) cs)"

definition str_split_ws :: "string \<Rightarrow> string list" where
  "str_split_ws s = ws_tokens [] s"

text \<open>\<open>(line.split("#", 1) + [""])[:2]\<close>: the text before the first \<open>#\<close> and the text after it.\<close>

definition split_hash :: "string \<Rightarrow> string \<times> string" where
  "split_hash line =
     (takeWhile (\<lambda>c. c \<noteq> CHR ''#'') line, drop 1 (dropWhile (\<lambda>c. c \<noteq> CHR ''#'') line))"

text \<open>
  \<open>re.findall(r"(\w+)=([^\s]+)", right)\<close>. At a position the pattern matches exactly when
  the maximal run of word characters there is non-empty, is followed by \<open>=\<close> and then by
  at least one non-whitespace character (a shorter key would be followed by a word
  character, never by \<open>=\<close>); the value is the maximal non-whitespace run, and scanning
  resumes after it. Where the pattern does not match, scanning resumes one character on.
\<close>

function findall :: "string \<Rightarrow> (string \<times> string) list" where
  "findall [] = []"
| "findall (c # cs) =
     (case dropWhile isword (c # cs) of
        [] \<Rightarrow> findall cs
      | e # more \<Rightarrow>
          (if takeWhile isword (c # cs) \<noteq> [] \<and> e = CHR ''=''
                \<and> takeWhile (\<lambda>x. \<not> isspace x) more \<noteq> []
           then (takeWhile isword (c # cs), takeWhile (\<lambda>x. \<not> isspace x) more)
                  # findall (dropWhile (\<lambda>x. \<not> isspace x) more)
           else findall cs))"
  by pat_completeness auto

termination findall
proof (relation "measure length")
  show "wf (measure length)" by simp
next
  fix c :: char and cs :: string
  show "(cs, c # cs) \<in> measure length" by simp
next
  fix c :: char and cs more :: string and e :: char
  assume run: "dropWhile isword (c # cs) = e # more"
  have "length (dropWhile (\<lambda>x. \<not> isspace x) more) \<le> length more"
    by (rule length_dropWhile_le)
  also have "length more < length (dropWhile isword (c # cs))"
    using run by simp
  also have "length (dropWhile isword (c # cs)) \<le> length (c # cs)"
    by (rule length_dropWhile_le)
  finally show "(dropWhile (\<lambda>x. \<not> isspace x) more, c # cs) \<in> measure length"
    by simp
next
  fix c :: char and cs more :: string and e :: char
  show "(cs, c # cs) \<in> measure length" by simp
qed

text \<open>\<open>dict(pairs).get(key, "")\<close>: the last pair with the key wins.\<close>

definition params_get :: "(string \<times> string) list \<Rightarrow> string \<Rightarrow> string" where
  "params_get params key = (case map_of (rev params) key of None \<Rightarrow> [] | Some v \<Rightarrow> v)"

text \<open>\<open>str(n)\<close> for an integer.\<close>

fun str_nat :: "nat \<Rightarrow> string" where
  "str_nat n =
     (if n < 10 then [''0123456789'' ! n]
      else str_nat (n div 10) @ [''0123456789'' ! (n mod 10)])"

declare str_nat.simps [simp del]

definition str_int :: "int \<Rightarrow> string" where
  "str_int i = (if i < 0 then CHR ''-'' # str_nat (nat (- i)) else str_nat (nat i))"

text \<open>\<open>" ".join(words)\<close>.\<close>

fun join_sp :: "string list \<Rightarrow> string" where
  "join_sp [] = []"
| "join_sp [w] = w"
| "join_sp (w # v # ws) = w @ CHR '' '' # join_sp (v # ws)"

section \<open>The parsed script\<close>

text \<open>
  The dataclass \<open>_Mkfs\<close>. Its fields \<open>begin\<close> and \<open>end\<close> are named
  \<open>begin_offset\<close> and \<open>end_offset\<close> here.
\<close>

record Mkfs =
  npart :: int
  fs :: string
  label :: string
  reserved :: string
  mount :: string
  begin_offset :: int
  end_offset :: int

datatype error =
    AssertionError
  | ValueError
  | RuntimeError string
  | TypeError
  | IndexError
  | FileNotFoundError string
  | SystemExit int

text \<open>
  \<open>dask.utils.parse_bytes\<close> belongs to a library outside the repository, so the parser
  takes it as the parameter \<open>pb\<close>; \<open>None\<close> is the exception it raises on a token it
  cannot read.
\<close>

type_synonym size_parser = "string \<Rightarrow> int option"

text \<open>The test of line 61 on the command tokens of a line.\<close>

definition is_mkpart :: "string list \<Rightarrow> bool" where
  "is_mkpart left =
     (''mkpart'' \<in> set left \<and> (''primary'' \<in> set left \<or> ''logical'' \<in> set left))"

text \<open>The command tokens of a line: the text before the first \<open>#\<close>, split at whitespace.\<close>

definition cmd_tokens :: "string \<Rightarrow> string list" where
  "cmd_tokens line = str_split_ws (fst (split_hash line))"

text \<open>
  The construction of one \<open>_Mkfs\<close> (lines 62 to 72): the assertion, then the fields in
  the order Python evaluates them.
\<close>

definition make_mkfs :: "size_parser \<Rightarrow> int \<Rightarrow> string list \<Rightarrow> string \<Rightarrow> error + Mkfs" where
  "make_mkfs pb n left right =
     (if \<not> 5 \<le> length left then Inl AssertionError
      else
        let params = findall right in
        (case pb (left ! 3) of
           None \<Rightarrow> Inl ValueError
         | Some b \<Rightarrow>
             (case (if left ! 4 = ''100%'' then Some 0 else pb (left ! 4)) of
                None \<Rightarrow> Inl ValueError
              | Some e \<Rightarrow>
                  Inr \<lparr>npart = n, fs = left ! 2,
                       label = params_get params ''label'',
                       reserved = params_get params ''reserved'',
                       mount = params_get params ''mount'',
                       begin_offset = b, end_offset = e\<rparr>)))"

text \<open>
  The body of the loop of \<open>_parse_script\<close> on one line, on the state
  \<open>(parted, filesystems, npart)\<close>.
\<close>

definition parse_line ::
  "size_parser \<Rightarrow> string \<Rightarrow> string list list \<times> Mkfs list \<times> int
     \<Rightarrow> error + string list list \<times> Mkfs list \<times> int" where
  "parse_line pb line st =
     (case st of (parted, filesystems, n) \<Rightarrow>
        let left = cmd_tokens line; right = snd (split_hash line) in
        if is_mkpart left then
          (case make_mkfs pb n left right of
             Inl err \<Rightarrow> Inl err
           | Inr m \<Rightarrow> Inr (parted @ [left], filesystems @ [m], n + 1))
        else Inr (parted @ [left], filesystems, n))"

fun parse_lines ::
  "size_parser \<Rightarrow> string list \<Rightarrow> string list list \<times> Mkfs list \<times> int
     \<Rightarrow> error + string list list \<times> Mkfs list \<times> int" where
  "parse_lines pb [] st = Inr st"
| "parse_lines pb (line # lines) st =
     (case parse_line pb line st of
        Inl err \<Rightarrow> Inl err
      | Inr st' \<Rightarrow> parse_lines pb lines st')"

text \<open>\<open>filter(None, ...)\<close> over the script split at line feeds: the lines that are not the empty string.\<close>

definition script_lines :: "string \<Rightarrow> string list" where
  "script_lines script = filter (\<lambda>line. line \<noteq> []) (str_split (CHR 0x0A) script)"

definition parse_script :: "size_parser \<Rightarrow> string \<Rightarrow> error + string list list \<times> Mkfs list" where
  "parse_script pb script =
     (case parse_lines pb (script_lines script) ([], [], 1) of
        Inl err \<Rightarrow> Inl err
      | Inr (parted, filesystems, n) \<Rightarrow> Inr (parted, filesystems))"

section \<open>The size parser of the library\<close>

text \<open>
  Modelled from the spec: \<open>dask.utils.parse_bytes\<close> is not under src/. The spec asks for
  "standard binary/decimal magnitude suffixes (k/K, m/M, g/G, etc.)"; this definition is
  the library's algorithm on the tokens whose magnitude is an optionally signed run of
  ASCII decimal digits: blanks are removed, a token without a digit gets the magnitude 1,
  the trailing letters are the unit, looked up without regard to case. \<open>None\<close> is the
  library's exception, and also every token this definition does not cover (fractions,
  exponents, characters beyond ASCII, products beyond \<open>2 ^ 53\<close>, where the library's
  floating-point product is no longer exact). It is used only to evaluate the parser on
  concrete scripts.
\<close>

definition isdigit :: "char \<Rightarrow> bool" where
  "isdigit c = (48 \<le> (of_char c :: nat) \<and> (of_char c :: nat) \<le> 57)"

definition isalpha :: "char \<Rightarrow> bool" where
  "isalpha c =
     ((65 \<le> (of_char c :: nat) \<and> (of_char c :: nat) \<le> 90)
      \<or> (97 \<le> (of_char c :: nat) \<and> (of_char c :: nat) \<le> 122))"

definition lower :: "char \<Rightarrow> char" where
  "lower c =
     (case map_of (zip ''ABCDEFGHIJKLMNOPQRSTUVWXYZ'' ''abcdefghijklmnopqrstuvwxyz'') c of
        None \<Rightarrow> c
      | Some d \<Rightarrow> d)"

definition byte_sizes :: "(string \<times> int) list" where
  "byte_sizes =
     [(''kb'', 10 ^ 3), (''mb'', 10 ^ 6), (''gb'', 10 ^ 9), (''tb'', 10 ^ 12), (''pb'', 10 ^ 15),
      (''kib'', 2 ^ 10), (''mib'', 2 ^ 20), (''gib'', 2 ^ 30), (''tib'', 2 ^ 40), (''pib'', 2 ^ 50),
      (''b'', 1), ([], 1),
      (''k'', 10 ^ 3), (''m'', 10 ^ 6), (''g'', 10 ^ 9), (''t'', 10 ^ 12), (''p'', 10 ^ 15),
      (''ki'', 2 ^ 10), (''mi'', 2 ^ 20), (''gi'', 2 ^ 30), (''ti'', 2 ^ 40), (''pi'', 2 ^ 50)]"

fun digits_value :: "string \<Rightarrow> int \<Rightarrow> int" where
  "digits_value [] acc = acc"
| "digits_value (c # cs) acc = digits_value cs (10 * acc + (int (of_char c) - 48))"

definition signed_digits :: "string \<Rightarrow> int option" where
  "signed_digits s =
     (case s of
        [] \<Rightarrow> None
      | c # cs \<Rightarrow>
          if c = CHR ''-'' \<and> cs \<noteq> [] \<and> list_all isdigit cs then Some (- digits_value cs 0)
          else if c = CHR ''+'' \<and> cs \<noteq> [] \<and> list_all isdigit cs then Some (digits_value cs 0)
          else if list_all isdigit (c # cs) then Some (digits_value (c # cs) 0)
          else None)"

definition parse_bytes :: size_parser where
  "parse_bytes token =
     (let s0 = filter (\<lambda>c. c \<noteq> CHR '' '') token;
          s = (if \<not> list_ex isdigit s0 then CHR ''1'' # s0 else s0);
          suffix = rev (takeWhile isalpha (rev s));
          prefix = rev (dropWhile isalpha (rev s))
      in if list_ex (\<lambda>c. 128 \<le> (of_char c :: nat)) s then None
         else
           (case signed_digits prefix of
              None \<Rightarrow> None
            | Some n \<Rightarrow>
                (case map_of byte_sizes (map lower suffix) of
                   None \<Rightarrow> None
                 | Some m \<Rightarrow> if \<bar>n * m\<bar> \<le> 2 ^ 53 then Some (n * m) else None)))"

section \<open>Naming partitions\<close>

text \<open>\<open>os.path.basename\<close>: the text after the last slash.\<close>

definition basename :: "string \<Rightarrow> string" where
  "basename path = rev (takeWhile (\<lambda>c. c \<noteq> CHR ''/'') (rev path))"

definition startswith :: "string \<Rightarrow> string \<Rightarrow> bool" where
  "startswith s p = (take (length p) s = p)"

definition make_partition :: "string \<Rightarrow> int \<Rightarrow> string" where
  "make_partition path n =
     (let device = basename path in
      if startswith device ''mmcblk'' \<or> startswith device ''loop''
      then path @ ''p'' @ str_int n
      else path @ str_int n)"

section \<open>Running commands\<close>

text \<open>
  A command is a Python list whose items are strings, or \<open>None\<close> where
  \<open>shutil.which\<close> found no executable when the command was built.
\<close>

type_synonym cmd = "string option list"

text \<open>
  What the program sees of its host: its own name, the search of the executable path
  (\<open>shutil.which\<close>) and the execution of a process, which returns the exit status and
  changes the world (the device, the mount table).
\<close>

record 'w env =
  argv0 :: string
  which :: "string \<Rightarrow> string option"
  subprocess_run :: "string list \<Rightarrow> 'w \<Rightarrow> int \<times> 'w"

text \<open>
  What a run leaves behind: the exception that ended it, the lines it printed, the
  processes it ran with their exit statuses, and the world after them.
\<close>

record 'w run_result =
  raised :: "error option"
  echoed :: "string list"
  executed :: "(string list \<times> int) list"
  world :: 'w

definition stopped :: "error \<Rightarrow> string list \<Rightarrow> 'w \<Rightarrow> 'w run_result" where
  "stopped err out w = \<lparr>raised = Some err, echoed = out, executed = [], world = w\<rparr>"

text \<open>
  \<open>_run_commands\<close>. Joining the words raises \<open>TypeError\<close> when one of them is
  \<open>None\<close>, before anything is printed; \<open>cmd[0]\<close> raises \<open>IndexError\<close> on an empty
  command; only \<open>CalledProcessError\<close> is caught and turned into \<open>SystemExit(1)\<close>.
\<close>

fun run_commands :: "'w env \<Rightarrow> cmd list \<Rightarrow> 'w \<Rightarrow> 'w run_result" where
  "run_commands env [] w = \<lparr>raised = None, echoed = [], executed = [], world = w\<rparr>"
| "run_commands env (cmd # cmds) w =
     (case those cmd of
        None \<Rightarrow> stopped TypeError [] w
      | Some ws \<Rightarrow>
          (let line = ''CMD [ '' @ argv0 env @ '' ] ==> '' @ join_sp ws in
           case ws of
             [] \<Rightarrow> stopped IndexError [line] w
           | prog # args \<Rightarrow>
               (case which env prog of
                  None \<Rightarrow> stopped (FileNotFoundError prog) [line] w
                | Some executable \<Rightarrow>
                    (case subprocess_run env (executable # args) w of
                       (rc, w') \<Rightarrow>
                         if rc \<noteq> 0
                         then \<lparr>raised = Some (SystemExit 1), echoed = [line],
                               executed = [(executable # args, rc)], world = w'\<rparr>
                         else
                           (let r = run_commands env cmds w' in
                            r\<lparr>echoed := line # echoed r,
                              executed := (executable # args, rc) # executed r\<rparr>)))))"

section \<open>The modes\<close>

text \<open>The two commands that end the format and mkfs sequences.\<close>

definition reprobe :: "'w env \<Rightarrow> string \<Rightarrow> cmd list" where
  "reprobe env device_path =
     [[which env ''partprobe'', Some device_path],
      [which env ''partx'', Some ''-vu'', Some device_path]]"

definition format_cmds :: "'w env \<Rightarrow> string \<Rightarrow> string list list \<Rightarrow> cmd list" where
  "format_cmds env device_path parted =
     map (\<lambda>cmd. which env ''parted'' # Some device_path # Some ''-a'' # Some ''optimal''
                  # Some ''-s'' # map Some cmd) parted
     @ reprobe env device_path"

definition format_disk :: "size_parser \<Rightarrow> 'w env \<Rightarrow> string \<Rightarrow> string \<Rightarrow> 'w \<Rightarrow> 'w run_result" where
  "format_disk pb env device_path script w =
     (case parse_script pb script of
        Inl err \<Rightarrow> stopped err [] w
      | Inr (parted, filesystems) \<Rightarrow> run_commands env (format_cmds env device_path parted) w)"

text \<open>The command built for one partition in \<open>_mkfs_disk\<close>.\<close>

definition mkfs_cmd :: "'w env \<Rightarrow> string \<Rightarrow> Mkfs \<Rightarrow> error + cmd" where
  "mkfs_cmd env device_path mkfs =
     (if fs mkfs = ''fat32'' then
        Inr ([which env ''mkfs.vfat'']
             @ (if label mkfs \<noteq> [] then [Some ''-n'', Some (label mkfs)] else [])
             @ [Some (make_partition device_path (npart mkfs))])
      else if fs mkfs = ''ext4'' then
        Inr ([which env ''mkfs.ext4'']
             @ (if label mkfs \<noteq> [] then [Some ''-L'', Some (label mkfs)] else [])
             @ (if reserved mkfs \<noteq> [] then [Some ''-m'', Some (reserved mkfs)] else [])
             @ [Some (make_partition device_path (npart mkfs))])
      else Inl (RuntimeError (''Unsupported filesystem: '' @ fs mkfs)))"

text \<open>The loop of \<open>_mkfs_disk\<close>, with the list \<open>cmds\<close> built so far.\<close>

fun mkfs_loop :: "'w env \<Rightarrow> string \<Rightarrow> Mkfs list \<Rightarrow> cmd list \<Rightarrow> error + cmd list" where
  "mkfs_loop env device_path [] cmds = Inr cmds"
| "mkfs_loop env device_path (mkfs # rest) cmds =
     (case mkfs_cmd env device_path mkfs of
        Inl err \<Rightarrow> Inl err
      | Inr cmd \<Rightarrow> mkfs_loop env device_path rest (cmds @ [cmd]))"

definition mkfs_cmds :: "'w env \<Rightarrow> string \<Rightarrow> Mkfs list \<Rightarrow> error + cmd list" where
  "mkfs_cmds env device_path filesystems =
     (case mkfs_loop env device_path filesystems [] of
        Inl err \<Rightarrow> Inl err
      | Inr cmds \<Rightarrow> Inr (cmds @ reprobe env device_path))"

definition mkfs_disk :: "size_parser \<Rightarrow> 'w env \<Rightarrow> string \<Rightarrow> string \<Rightarrow> 'w \<Rightarrow> 'w run_result" where
  "mkfs_disk pb env device_path script w =
     (case parse_script pb script of
        Inl err \<Rightarrow> stopped err [] w
      | Inr (parted, filesystems) \<Rightarrow>
          (case mkfs_cmds env device_path filesystems of
             Inl err \<Rightarrow> stopped err [] w
           | Inr cmds \<Rightarrow> run_commands env cmds w))"

text \<open>
  The sort key of \<open>_mount_disk\<close>: the number of non-empty pieces of the mount path
  between slashes.
\<close>

definition mount_depth :: "Mkfs \<Rightarrow> nat" where
  "mount_depth mkfs = length (filter (\<lambda>piece. piece \<noteq> []) (str_split (CHR ''/'') (mount mkfs)))"

text \<open>
  \<open>sorted(filesystems, key=...)\<close>, a stable sort, and the reversal of the whole list when
  unmounting.
\<close>

definition mount_order :: "bool \<Rightarrow> Mkfs list \<Rightarrow> Mkfs list" where
  "mount_order mnt filesystems =
     (let ordered = sort_key mount_depth filesystems in
      if \<not> mnt then rev ordered else ordered)"

definition mount_cmd :: "'w env \<Rightarrow> string \<Rightarrow> string \<Rightarrow> bool \<Rightarrow> Mkfs \<Rightarrow> cmd list" where
  "mount_cmd env device_path prefix_path mnt mkfs =
     (if mount mkfs \<noteq> [] then
        (let part_path = make_partition device_path (npart mkfs) in
         if mnt then
           (let mount_path = prefix_path @ ''/'' @ mount mkfs in
            [[which env ''mkdir'', Some ''-p'', Some mount_path],
             [which env ''mount'', Some part_path, Some mount_path]])
         else [[which env ''umount'', Some part_path]])
      else [])"

definition mount_cmds :: "'w env \<Rightarrow> string \<Rightarrow> string \<Rightarrow> bool \<Rightarrow> Mkfs list \<Rightarrow> cmd list" where
  "mount_cmds env device_path prefix_path mnt filesystems =
     concat (map (mount_cmd env device_path prefix_path mnt) (mount_order mnt filesystems))"

definition mount_disk ::
  "size_parser \<Rightarrow> 'w env \<Rightarrow> string \<Rightarrow> string \<Rightarrow> bool \<Rightarrow> string \<Rightarrow> 'w \<Rightarrow> 'w run_result" where
  "mount_disk pb env device_path prefix_path mnt script w =
     (case parse_script pb script of
        Inl err \<Rightarrow> stopped err [] w
      | Inr (parted, filesystems) \<Rightarrow>
          run_commands env (mount_cmds env device_path prefix_path mnt filesystems) w)"

text \<open>The loop of \<open>_print_size\<close>, with the running value \<open>sz\<close> of its variable \<open>size\<close>.\<close>

fun size_loop :: "Mkfs list \<Rightarrow> int \<Rightarrow> int" where
  "size_loop [] sz = sz"
| "size_loop (mkfs # rest) sz =
     size_loop rest (if end_offset mkfs > 0 then end_offset mkfs else begin_offset mkfs)"

definition size_of :: "Mkfs list \<Rightarrow> int" where
  "size_of filesystems =
     (let sz0 = size_loop filesystems 0;
          sz1 = sz0 + 2048 * 1024 * 1024;
          sz2 = sz1 - sz1 mod 4096
      in sz2)"

text \<open>\<open>_print_size\<close>: the number printed.\<close>

definition print_size :: "size_parser \<Rightarrow> string \<Rightarrow> error + int" where
  "print_size pb script =
     (case parse_script pb script of
        Inl err \<Rightarrow> Inl err
      | Inr (parted, filesystems) \<Rightarrow> Inr (size_of filesystems))"

text \<open>Alignment as the specification words it: down to a multiple of the boundary.\<close>

definition align_down :: "int \<Rightarrow> int \<Rightarrow> int" where
  "align_down n boundary = (n div boundary) * boundary"

section \<open>Notions used to state the properties\<close>

text \<open>The partition \<open>m\<close> is the one the parser builds from \<open>line\<close>, under the number it carries.\<close>

definition made_from :: "size_parser \<Rightarrow> Mkfs \<Rightarrow> string \<Rightarrow> bool" where
  "made_from pb m line =
     (make_mkfs pb (npart m) (cmd_tokens line) (snd (split_hash line)) = Inr m)"


text \<open>The argument vector \<open>_run_commands\<close> passes to the process of a command, when it gets that far.\<close>

definition argv_of :: "'w env \<Rightarrow> cmd \<Rightarrow> string list option" where
  "argv_of env cmd =
     (case those cmd of
        None \<Rightarrow> None
      | Some [] \<Rightarrow> None
      | Some (prog # args) \<Rightarrow> map_option (\<lambda>executable. executable # args) (which env prog))"

text \<open>
  A host for concrete runs: the programs named in \<open>missing\<close> are not on the search path,
  every other bare name resolves under \<open>/usr/bin\<close> and every absolute path to itself; a
  process whose executable is in \<open>failing\<close> exits with status 1, every other with 0; the
  world counts the processes run.
\<close>

definition sample_env :: "string list \<Rightarrow> string list \<Rightarrow> nat env" where
  "sample_env missing failing =
     \<lparr>argv0 = ''disk'',
      which = (\<lambda>prog. if prog \<in> set missing then None
                       else if take 1 prog = ''/'' then Some prog
                       else Some (''/usr/bin/'' @ prog)),
      subprocess_run = (\<lambda>argv w. (if take 1 argv \<noteq> [] \<and> hd argv \<in> set failing then 1 else 0, Suc w))\<rparr>"

section \<open>Concrete scripts\<close>

definition sample_script :: string where
  "sample_script =
     ''mklabel msdos'' @ [CHR 0x0A]
     @ ''mkpart primary fat32 1MiB 257MiB # label=BOOT mount=boot'' @ [CHR 0x0A]
     @ [CHR 0x0A]
     @ ''unit s'' @ [CHR 0x0A]
     @ ''mkpart primary ext4 257MiB 100% # label=root mount=/ reserved=1'' @ [CHR 0x0A]"

definition sample_parted :: "string list list" where
  "sample_parted =
     [[''mklabel'', ''msdos''],
      [''mkpart'', ''primary'', ''fat32'', ''1MiB'', ''257MiB''],
      [''unit'', ''s''],
      [''mkpart'', ''primary'', ''ext4'', ''257MiB'', ''100%'']]"

definition sample_filesystems :: "Mkfs list" where
  "sample_filesystems =
     [\<lparr>npart = 1, fs = ''fat32'', label = ''BOOT'', reserved = [], mount = ''boot'',
       begin_offset = 1048576, end_offset = 269484032\<rparr>,
      \<lparr>npart = 2, fs = ''ext4'', label = ''root'', reserved = ''1'', mount = ''/'',
       begin_offset = 269484032, end_offset = 0\<rparr>]"

definition blank_line_script :: string where
  "blank_line_script = ''mklabel gpt'' @ [CHR 0x0A] @ [CHR 0x0A] @ ''  ''"

definition negative_end_filesystems :: "Mkfs list" where
  "negative_end_filesystems =
     [\<lparr>npart = 1, fs = ''ext4'', label = [], reserved = [], mount = [],
       begin_offset = 1048576, end_offset = - 1048576\<rparr>]"

definition four_gib_filesystems :: "Mkfs list" where
  "four_gib_filesystems =
     [\<lparr>npart = 1, fs = ''fat32'', label = [], reserved = [], mount = [],
       begin_offset = 1048576, end_offset = 269484032\<rparr>,
      \<lparr>npart = 2, fs = ''ext4'', label = [], reserved = [], mount = [],
       begin_offset = 269484032, end_offset = 4294967296\<rparr>]"

definition tie_filesystems :: "Mkfs list" where
  "tie_filesystems =
     [\<lparr>npart = 1, fs = ''ext4'', label = [], reserved = [], mount = ''boot/firmware'',
       begin_offset = 1048576, end_offset = 1073741824\<rparr>,
      \<lparr>npart = 2, fs = ''ext4'', label = [], reserved = [], mount = ''home/user'',
       begin_offset = 1073741824, end_offset = 0\<rparr>]"

definition btrfs_script :: string where
  "btrfs_script =
     ''mkpart primary ext4 1MiB 1GiB # label=root'' @ [CHR 0x0A]
     @ ''mkpart primary btrfs 1GiB 100% # label=data''"

text \<open>A command sequence whose programs were all found when it was built.\<close>

definition resolved_cmds :: "cmd list" where
  "resolved_cmds =
     [[Some ''/usr/bin/mkfs.ext4'', Some ''-L'', Some ''root'', Some ''/dev/sda1''],
      [Some ''/usr/bin/partprobe'', Some ''/dev/sda''],
      [Some ''/usr/bin/partx'', Some ''-vu'', Some ''/dev/sda'']]"

definition positional_script :: string where
  "positional_script =
     ''mklabel gpt'' @ [CHR 0x0A]
     @ ''resize logical ext4 1MiB 2GiB mkpart # label=data''"

section \<open>Facts about the parser\<close>

lemma make_mkfs_fields:
  assumes "make_mkfs pb n left right = Inr m"
  shows "5 \<le> length left"
    and "npart m = n"
    and "fs m = left ! 2"
    and "pb (left ! 3) = Some (begin_offset m)"
    and "left ! 4 = ''100%'' \<Longrightarrow> end_offset m = 0"
    and "left ! 4 \<noteq> ''100%'' \<Longrightarrow> pb (left ! 4) = Some (end_offset m)"
  using assms
  by (auto simp: make_mkfs_def Let_def split: if_splits option.splits)

lemma parse_line_cases:
  assumes "parse_line pb line (parted, fss, n) = Inr st'"
  shows "(\<not> is_mkpart (cmd_tokens line) \<and> st' = (parted @ [cmd_tokens line], fss, n))
       \<or> (is_mkpart (cmd_tokens line)
           \<and> (\<exists>m. make_mkfs pb n (cmd_tokens line) (snd (split_hash line)) = Inr m
                  \<and> st' = (parted @ [cmd_tokens line], fss @ [m], n + 1)))"
  using assms
  by (auto simp: parse_line_def Let_def split: if_splits sum.splits)

lemma upt_shift: "map (\<lambda>i. n + int i) [0..<Suc k] = n # map (\<lambda>i. (n + 1) + int i) [0..<k]"
proof -
  have "[0..<Suc k] = 0 # map Suc [0..<k]"
    by (simp add: upt_conv_Cons map_Suc_upt del: upt_Suc)
  then show ?thesis by (simp add: comp_def add.assoc del: upt_Suc)
qed

lemma parse_lines_inv:
  assumes "parse_lines pb lines (parted, fss, n) = Inr (parted', fss', n')"
  shows "parted' = parted @ map cmd_tokens lines
       \<and> (\<exists>new. fss' = fss @ new
             \<and> map npart new = map (\<lambda>i. n + int i) [0..<length new]
             \<and> list_all2 (made_from pb) new (filter (\<lambda>line. is_mkpart (cmd_tokens line)) lines))"
  using assms
proof (induction lines arbitrary: parted fss n)
  case Nil
  then show ?case by simp
next
  case (Cons line lines)
  from Cons.prems obtain st' where
    step: "parse_line pb line (parted, fss, n) = Inr st'"
    and rest: "parse_lines pb lines st' = Inr (parted', fss', n')"
    by (auto split: sum.splits)
  from parse_line_cases [OF step] show ?case
  proof (elim disjE conjE exE)
    assume no: "\<not> is_mkpart (cmd_tokens line)"
      and st: "st' = (parted @ [cmd_tokens line], fss, n)"
    from Cons.IH [OF rest [unfolded st]] no show ?thesis by simp
  next
    fix m
    assume yes: "is_mkpart (cmd_tokens line)"
      and mk: "make_mkfs pb n (cmd_tokens line) (snd (split_hash line)) = Inr m"
      and st: "st' = (parted @ [cmd_tokens line], fss @ [m], n + 1)"
    from Cons.IH [OF rest [unfolded st]] obtain new where
      p: "parted' = (parted @ [cmd_tokens line]) @ map cmd_tokens lines"
      and f: "fss' = (fss @ [m]) @ new"
      and ix: "map npart new = map (\<lambda>i. (n + 1) + int i) [0..<length new]"
      and all: "list_all2 (made_from pb) new (filter (\<lambda>line. is_mkpart (cmd_tokens line)) lines)"
      by blast
    have nm: "npart m = n" using make_mkfs_fields(2) [OF mk] .
    have mf: "made_from pb m line" using mk nm by (simp add: made_from_def)
    have a: "fss' = fss @ (m # new)" using f by simp
    have b: "map npart (m # new) = map (\<lambda>i. n + int i) [0..<length (m # new)]"
      using ix nm upt_shift [of n "length new"] by simp
    have c: "list_all2 (made_from pb) (m # new)
        (filter (\<lambda>line. is_mkpart (cmd_tokens line)) (line # lines))"
      using all mf yes by simp
    have d: "parted' = parted @ map cmd_tokens (line # lines)" using p by simp
    show ?thesis
      by (rule conjI [OF d], rule exI [of _ "m # new"]) (intro conjI a b c)
  qed
qed

lemma parse_script_inv:
  assumes "parse_script pb script = Inr (parted, fss)"
  shows "parted = map cmd_tokens (script_lines script)"
    and "map npart fss = map (\<lambda>i. 1 + int i) [0..<length fss]"
    and "list_all2 (made_from pb) fss (filter (\<lambda>line. is_mkpart (cmd_tokens line)) (script_lines script))"
proof -
  from assms obtain n' where
    "parse_lines pb (script_lines script) ([], [], 1) = Inr (parted, fss, n')"
    by (auto simp: parse_script_def split: sum.splits)
  from parse_lines_inv [OF this]
  show "parted = map cmd_tokens (script_lines script)"
    and "map npart fss = map (\<lambda>i. 1 + int i) [0..<length fss]"
    and "list_all2 (made_from pb) fss (filter (\<lambda>line. is_mkpart (cmd_tokens line)) (script_lines script))"
    by auto
qed

lemmas parse_eval =
  parse_script_def script_lines_def parse_line_def cmd_tokens_def split_hash_def
  str_split_ws_def isspace_def is_mkpart_def make_mkfs_def params_get_def isword_def
lemmas parse_bytes_eval =
  parse_bytes_def isdigit_def isalpha_def lower_def signed_digits_def byte_sizes_def

lemma sample_script_parsed:
  "parse_script parse_bytes sample_script = Inr (sample_parted, sample_filesystems)"
  by (simp add: sample_script_def sample_parted_def sample_filesystems_def parse_eval parse_bytes_eval)

lemma index_range: "map (\<lambda>i. 1 + int i) [0..<k] = map int [1..<Suc k]"
proof -
  have "[1..<Suc k] = map Suc [0..<k]"
    using map_Suc_upt [of 0 k] by simp
  then show ?thesis by (simp add: comp_def del: upt_Suc)
qed

section \<open>C7: one partition per mkpart line, numbered from 1\<close>

text \<open>
  Claim C7. Whenever the parser accepts a script, it returns as many partitions as the
  script has lines whose command tokens contain \<open>mkpart\<close> together with
  \<open>primary\<close> or \<open>logical\<close>; their numbers are 1, 2, ..., N in this order; and the
  partitions correspond one to one, in script order, to those lines, each partition being
  the one built from its line, whatever other lines stand in between.
\<close>

theorem parse_script_specs_per_mkpart_line:
  assumes "parse_script pb script = Inr (parted, filesystems)"
  shows "length filesystems
           = length (filter (\<lambda>line. is_mkpart (cmd_tokens line)) (script_lines script))
       \<and> map npart filesystems = map int [1..<Suc (length filesystems)]
       \<and> list_all2 (made_from pb) filesystems
            (filter (\<lambda>line. is_mkpart (cmd_tokens line)) (script_lines script))"
proof -
  have all: "list_all2 (made_from pb) filesystems
      (filter (\<lambda>line. is_mkpart (cmd_tokens line)) (script_lines script))"
    using parse_script_inv(3) [OF assms] .
  have ix: "map npart filesystems = map int [1..<Suc (length filesystems)]"
    using parse_script_inv(2) [OF assms] index_range [of "length filesystems"] by simp
  show ?thesis
    using all ix list_all2_lengthD [OF all] by blast
qed

theorem parse_script_specs_per_mkpart_line_witness:
  "parse_script parse_bytes sample_script = Inr (sample_parted, sample_filesystems)
   \<and> length sample_filesystems = 2
   \<and> length (filter (\<lambda>line. is_mkpart (cmd_tokens line)) (script_lines sample_script)) = 2
   \<and> map npart sample_filesystems = [1, 2]
   \<and> list_all2 (made_from parse_bytes) sample_filesystems
        (filter (\<lambda>line. is_mkpart (cmd_tokens line)) (script_lines sample_script))"
proof -
  have h: "parse_script parse_bytes sample_script = Inr (sample_parted, sample_filesystems)"
    by (rule sample_script_parsed)
  have n: "length sample_filesystems = 2"
    by (simp add: sample_filesystems_def)
  have ix: "map npart sample_filesystems = [1, 2]"
    by (simp add: sample_filesystems_def)
  note t = parse_script_specs_per_mkpart_line [OF h]
  have c: "length (filter (\<lambda>line. is_mkpart (cmd_tokens line)) (script_lines sample_script)) = 2"
    using t n by (simp only:)
  have a: "list_all2 (made_from parse_bytes) sample_filesystems
        (filter (\<lambda>line. is_mkpart (cmd_tokens line)) (script_lines sample_script))"
    using t by blast
  show ?thesis
    by (intro conjI h n c ix a)
qed

section \<open>C8: which lines are discarded\<close>

lemma ws_tokens_blank: "list_all isspace s \<Longrightarrow> ws_tokens [] s = []"
  by (induction s) simp_all

lemma cmd_tokens_blank:
  assumes "list_all isspace line"
  shows "cmd_tokens line = []"
proof -
  have "set (takeWhile (\<lambda>c. c \<noteq> CHR ''#'') line) \<subseteq> set line"
    by (auto dest: set_takeWhileD)
  then have "list_all isspace (takeWhile (\<lambda>c. c \<noteq> CHR ''#'') line)"
    using assms by (auto simp: list_all_iff)
  then show ?thesis
    by (simp add: cmd_tokens_def str_split_ws_def split_hash_def ws_tokens_blank)
qed

lemma blank_not_mkpart: "list_all isspace line \<Longrightarrow> \<not> is_mkpart (cmd_tokens line)"
  by (simp add: cmd_tokens_blank is_mkpart_def)

lemma mkpart_lines_nonblank:
  "filter (\<lambda>line. is_mkpart (cmd_tokens line)) (filter (\<lambda>line. line \<noteq> []) ls)
   = filter (\<lambda>line. is_mkpart (cmd_tokens line)) (filter (\<lambda>line. \<not> list_all isspace line) ls)"
proof -
  have "\<And>line. (line \<noteq> [] \<and> is_mkpart (cmd_tokens line))
               = (\<not> list_all isspace line \<and> is_mkpart (cmd_tokens line))"
    using blank_not_mkpart by auto
  then show ?thesis by (simp add: conj_commute)
qed

text \<open>
  Claim C8 says that a line consisting only of whitespace is discarded. The parser
  keeps it: in the script below the third line is two blanks, and the list of raw command
  lines gets the empty token list for it. Only the second line, the empty string, is
  dropped.
\<close>

theorem blank_line_kept_counterexample:
  "list_all isspace ''  ''
   \<and> parse_script parse_bytes (''mklabel gpt'' @ [CHR 0x0A] @ [CHR 0x0A] @ ''  '')
       = Inr ([[''mklabel'', ''gpt''], []], [])"
  by (simp add: parse_eval)

text \<open>
  Claim C8, amended. Whenever the parser accepts a script, the raw command lines are the
  token lists of the lines that are not the empty string, in order and with nothing left
  out: a line of whitespace only is kept, with an empty token list. The partitions are
  built from the qualifying lines among the lines that are not blank: no empty line and no
  whitespace-only line yields a partition.
\<close>

theorem parse_script_raw_lines:
  assumes "parse_script pb script = Inr (parted, filesystems)"
  shows "parted = map cmd_tokens (filter (\<lambda>line. line \<noteq> []) (str_split (CHR 0x0A) script))
       \<and> list_all2 (made_from pb) filesystems
            (filter (\<lambda>line. is_mkpart (cmd_tokens line))
               (filter (\<lambda>line. \<not> list_all isspace line) (str_split (CHR 0x0A) script)))"
proof -
  have "parted = map cmd_tokens (filter (\<lambda>line. line \<noteq> []) (str_split (CHR 0x0A) script))"
    using parse_script_inv(1) [OF assms] by (simp add: script_lines_def)
  moreover have "list_all2 (made_from pb) filesystems
      (filter (\<lambda>line. is_mkpart (cmd_tokens line))
         (filter (\<lambda>line. \<not> list_all isspace line) (str_split (CHR 0x0A) script)))"
    using parse_script_inv(3) [OF assms]
    by (simp only: script_lines_def mkpart_lines_nonblank)
  ultimately show ?thesis by (rule conjI)
qed

text \<open>
  Witness for claim C8, amended: the script with one command line, one empty line and one
  line of two blanks.
\<close>

theorem parse_script_raw_lines_witness:
  "parse_script parse_bytes blank_line_script = Inr ([[''mklabel'', ''gpt''], []], [])
   \<and> [[''mklabel'', ''gpt''], []]
       = map cmd_tokens (filter (\<lambda>line. line \<noteq> []) (str_split (CHR 0x0A) blank_line_script))
   \<and> str_split (CHR 0x0A) blank_line_script = [''mklabel gpt'', [], ''  '']"
proof -
  have h: "parse_script parse_bytes blank_line_script = Inr ([[''mklabel'', ''gpt''], []], [])"
    by (simp add: blank_line_script_def parse_eval)
  have s: "str_split (CHR 0x0A) blank_line_script = [''mklabel gpt'', [], ''  '']"
    by (simp add: blank_line_script_def)
  from parse_script_raw_lines [OF h]
  have p: "[[''mklabel'', ''gpt''], []]
       = map cmd_tokens (filter (\<lambda>line. line \<noteq> []) (str_split (CHR 0x0A) blank_line_script))"
    by (rule conjunct1)
  show ?thesis by (intro conjI h p s)
qed

section \<open>C1: the end offset and the token 100%\<close>

lemma mkpart_token_lists:
  assumes "parse_script pb script = Inr (parted, filesystems)"
  shows "filter is_mkpart parted
         = map cmd_tokens (filter (\<lambda>line. is_mkpart (cmd_tokens line)) (script_lines script))"
  using parse_script_inv(1) [OF assms] by (simp add: filter_map comp_def)

text \<open>
  Claim C1 says that the end offset is 0 only if the end token is \<open>100%\<close>. An end
  token that the size parser reads as zero bytes, such as \<open>0B\<close>, gives the end offset
  0 as well.
\<close>

theorem end_offset_zero_counterexample:
  "parse_script parse_bytes ''mkpart primary ext4 0B 0B''
     = Inr ([[''mkpart'', ''primary'', ''ext4'', ''0B'', ''0B'']],
            [\<lparr>npart = 1, fs = ''ext4'', label = [], reserved = [], mount = [],
              begin_offset = 0, end_offset = 0\<rparr>])
   \<and> [''mkpart'', ''primary'', ''ext4'', ''0B'', ''0B''] ! 4 \<noteq> ''100%''"
  by (simp add: parse_eval parse_bytes_eval)

text \<open>
  Claim C1, amended. Whenever the parser accepts a script, each partition stands against
  the token list of its mkpart line, and: if the fifth token is \<open>100%\<close>, the end
  offset is 0; otherwise the end offset is the byte count the size parser returns for that
  token. Hence the end offset is 0 exactly when the token is \<open>100%\<close> or is read as
  zero bytes.
\<close>

theorem end_offset_sentinel:
  assumes "parse_script pb script = Inr (parted, filesystems)"
  shows "list_all2
           (\<lambda>m left. (left ! 4 = ''100%'' \<longrightarrow> end_offset m = 0)
                    \<and> (left ! 4 \<noteq> ''100%'' \<longrightarrow> pb (left ! 4) = Some (end_offset m))
                    \<and> (end_offset m = 0) = (left ! 4 = ''100%'' \<or> pb (left ! 4) = Some 0))
           filesystems (filter is_mkpart parted)"
proof -
  have "list_all2 (made_from pb) filesystems
      (filter (\<lambda>line. is_mkpart (cmd_tokens line)) (script_lines script))"
    using parse_script_inv(3) [OF assms] .
  then have "list_all2
      (\<lambda>m line. (cmd_tokens line ! 4 = ''100%'' \<longrightarrow> end_offset m = 0)
               \<and> (cmd_tokens line ! 4 \<noteq> ''100%'' \<longrightarrow> pb (cmd_tokens line ! 4) = Some (end_offset m))
               \<and> (end_offset m = 0) = (cmd_tokens line ! 4 = ''100%'' \<or> pb (cmd_tokens line ! 4) = Some 0))
      filesystems (filter (\<lambda>line. is_mkpart (cmd_tokens line)) (script_lines script))"
  proof (rule list_all2_mono)
    fix m line
    assume "made_from pb m line"
    then have mk: "make_mkfs pb (npart m) (cmd_tokens line) (snd (split_hash line)) = Inr m"
      by (simp add: made_from_def)
    show "(cmd_tokens line ! 4 = ''100%'' \<longrightarrow> end_offset m = 0)
        \<and> (cmd_tokens line ! 4 \<noteq> ''100%'' \<longrightarrow> pb (cmd_tokens line ! 4) = Some (end_offset m))
        \<and> (end_offset m = 0) = (cmd_tokens line ! 4 = ''100%'' \<or> pb (cmd_tokens line ! 4) = Some 0)"
    proof (cases "cmd_tokens line ! 4 = ''100%''")
      case True
      then show ?thesis using make_mkfs_fields(5) [OF mk] by simp
    next
      case False
      then show ?thesis using make_mkfs_fields(6) [OF mk] by auto
    qed
  qed
  then show ?thesis
    by (simp add: mkpart_token_lists [OF assms] list_all2_map2)
qed

text \<open>
  Witness for claim C1, amended: in the sample script the first partition ends at
  \<open>257MiB\<close> and the second at \<open>100%\<close>.
\<close>

theorem end_offset_sentinel_witness:
  "parse_script parse_bytes sample_script = Inr (sample_parted, sample_filesystems)
   \<and> filter is_mkpart sample_parted
       = [[''mkpart'', ''primary'', ''fat32'', ''1MiB'', ''257MiB''],
          [''mkpart'', ''primary'', ''ext4'', ''257MiB'', ''100%'']]
   \<and> ''257MiB'' \<noteq> ''100%''
   \<and> parse_bytes ''257MiB'' = Some (end_offset (sample_filesystems ! 0))
   \<and> end_offset (sample_filesystems ! 1) = 0"
proof -
  have h: "parse_script parse_bytes sample_script = Inr (sample_parted, sample_filesystems)"
    by (rule sample_script_parsed)
  have f: "filter is_mkpart sample_parted
       = [[''mkpart'', ''primary'', ''fat32'', ''1MiB'', ''257MiB''],
          [''mkpart'', ''primary'', ''ext4'', ''257MiB'', ''100%'']]"
    by (simp add: sample_parted_def is_mkpart_def)
  have fs: "sample_filesystems = [sample_filesystems ! 0, sample_filesystems ! 1]"
    by (simp add: sample_filesystems_def)
  from end_offset_sentinel [OF h, unfolded f]
  have "parse_bytes ''257MiB'' = Some (end_offset (sample_filesystems ! 0))
      \<and> end_offset (sample_filesystems ! 1) = 0"
    by (subst (asm) fs) simp
  then show ?thesis using h f by simp
qed

section \<open>C10: the fields of a mkpart line are positional\<close>

lemma is_mkpart_filter:
  "filter (\<lambda>left. ''mkpart'' \<in> set left \<and> (''primary'' \<in> set left \<or> ''logical'' \<in> set left)) parted
   = filter is_mkpart parted"
  by (rule filter_cong) (simp_all add: is_mkpart_def)

text \<open>
  Claim C10. Whenever the parser accepts a script, the raw command lines are the command
  token lists of its lines, and the partitions it returns stand, one to one and in order,
  against the token lists that contain \<open>mkpart\<close> and also \<open>primary\<close> or
  \<open>logical\<close>, at any positions. Each such token list has at least five tokens, and
  the filesystem kind, the begin offset and the end offset of its partition come from its
  third, fourth and fifth token, wherever \<open>mkpart\<close> stands.
\<close>

theorem parse_script_fields_positional:
  assumes "parse_script pb script = Inr (parted, filesystems)"
  shows "parted = map cmd_tokens (script_lines script)
       \<and> list_all2
           (\<lambda>m left. 5 \<le> length left
                    \<and> fs m = left ! 2
                    \<and> pb (left ! 3) = Some (begin_offset m)
                    \<and> (if left ! 4 = ''100%'' then end_offset m = 0
                        else pb (left ! 4) = Some (end_offset m)))
           filesystems
           (filter (\<lambda>left. ''mkpart'' \<in> set left
                             \<and> (''primary'' \<in> set left \<or> ''logical'' \<in> set left)) parted)"
proof -
  have p: "parted = map cmd_tokens (script_lines script)"
    using parse_script_inv(1) [OF assms] .
  have "list_all2 (made_from pb) filesystems
      (filter (\<lambda>line. is_mkpart (cmd_tokens line)) (script_lines script))"
    using parse_script_inv(3) [OF assms] .
  then have "list_all2
      (\<lambda>m line. 5 \<le> length (cmd_tokens line)
               \<and> fs m = cmd_tokens line ! 2
               \<and> pb (cmd_tokens line ! 3) = Some (begin_offset m)
               \<and> (if cmd_tokens line ! 4 = ''100%'' then end_offset m = 0
                   else pb (cmd_tokens line ! 4) = Some (end_offset m)))
      filesystems (filter (\<lambda>line. is_mkpart (cmd_tokens line)) (script_lines script))"
  proof (rule list_all2_mono)
    fix m line
    assume "made_from pb m line"
    then have mk: "make_mkfs pb (npart m) (cmd_tokens line) (snd (split_hash line)) = Inr m"
      by (simp add: made_from_def)
    show "5 \<le> length (cmd_tokens line)
        \<and> fs m = cmd_tokens line ! 2
        \<and> pb (cmd_tokens line ! 3) = Some (begin_offset m)
        \<and> (if cmd_tokens line ! 4 = ''100%'' then end_offset m = 0
            else pb (cmd_tokens line ! 4) = Some (end_offset m))"
      using make_mkfs_fields [OF mk] by simp
  qed
  then have "list_all2
           (\<lambda>m left. 5 \<le> length left
                    \<and> fs m = left ! 2
                    \<and> pb (left ! 3) = Some (begin_offset m)
                    \<and> (if left ! 4 = ''100%'' then end_offset m = 0
                        else pb (left ! 4) = Some (end_offset m)))
           filesystems (filter is_mkpart parted)"
    by (simp add: mkpart_token_lists [OF assms] list_all2_map2)
  then show ?thesis
    using p by (simp only: is_mkpart_filter simp_thms)
qed

text \<open>
  Witness for claim C10: in the second line \<open>mkpart\<close> is the sixth token and
  \<open>logical\<close> the second; the kind is still the third token and the offsets the fourth
  and fifth.
\<close>

theorem parse_script_fields_positional_witness:
  "parse_script parse_bytes positional_script
     = Inr ([[''mklabel'', ''gpt''],
             [''resize'', ''logical'', ''ext4'', ''1MiB'', ''2GiB'', ''mkpart'']],
            [\<lparr>npart = 1, fs = ''ext4'', label = ''data'', reserved = [], mount = [],
              begin_offset = 1048576, end_offset = 2147483648\<rparr>])
   \<and> filter (\<lambda>left. ''mkpart'' \<in> set left
                      \<and> (''primary'' \<in> set left \<or> ''logical'' \<in> set left))
        [[''mklabel'', ''gpt''],
         [''resize'', ''logical'', ''ext4'', ''1MiB'', ''2GiB'', ''mkpart'']]
       = [[''resize'', ''logical'', ''ext4'', ''1MiB'', ''2GiB'', ''mkpart'']]
   \<and> ''2GiB'' \<noteq> ''100%''
   \<and> parse_bytes ''1MiB'' = Some 1048576
   \<and> parse_bytes ''2GiB'' = Some 2147483648"
proof -
  let ?parted = "[[''mklabel'', ''gpt''],
             [''resize'', ''logical'', ''ext4'', ''1MiB'', ''2GiB'', ''mkpart'']]"
  let ?m = "\<lparr>npart = 1, fs = ''ext4'', label = ''data'', reserved = [], mount = [],
              begin_offset = 1048576, end_offset = 2147483648\<rparr>"
  have h: "parse_script parse_bytes positional_script = Inr (?parted, [?m])"
    by (simp add: positional_script_def parse_eval parse_bytes_eval)
  have f: "filter (\<lambda>left. ''mkpart'' \<in> set left
                      \<and> (''primary'' \<in> set left \<or> ''logical'' \<in> set left)) ?parted
       = [[''resize'', ''logical'', ''ext4'', ''1MiB'', ''2GiB'', ''mkpart'']]"
    by simp
  from parse_script_fields_positional [OF h, unfolded f]
  have "parse_bytes ''1MiB'' = Some 1048576 \<and> parse_bytes ''2GiB'' = Some 2147483648"
    by simp
  then show ?thesis using h f by simp
qed

section \<open>C4: the size printed\<close>

lemma size_loop_last:
  "size_loop filesystems sz =
     (if filesystems = [] then sz
      else if 0 < end_offset (last filesystems) then end_offset (last filesystems)
      else begin_offset (last filesystems))"
  by (induction filesystems arbitrary: sz) simp_all

text \<open>
  Claim C4 takes the end offset of the last partition whenever it is not zero. The loop
  tests \<open>mkfs.end > 0\<close>: a negative end offset, which the size parser returns for a
  token such as \<open>-1MiB\<close>, is passed over and the begin offset is taken. For the script
  below the size printed is 1 MiB + 2 GiB, not -1 MiB + 2 GiB aligned down.
\<close>

theorem size_of_negative_end_counterexample:
  "parse_script parse_bytes ''mkpart primary ext4 1MiB -1MiB''
     = Inr ([[''mkpart'', ''primary'', ''ext4'', ''1MiB'', ''-1MiB'']], negative_end_filesystems)
   \<and> end_offset (last negative_end_filesystems) = - 1048576
   \<and> size_of negative_end_filesystems = 2148532224
   \<and> align_down (- 1048576 + 2 * 1024 * 1024 * 1024) 4096 = 2146435072"
  by (simp add: negative_end_filesystems_def parse_eval parse_bytes_eval size_of_def align_down_def)

text \<open>
  Claim C4, amended. For every list of partitions, the empty one included, the size
  printed is \<open>s + 2 GiB\<close> aligned down to a multiple of 4096, where \<open>s\<close> is the end
  offset of the last partition if that is positive, else its begin offset, and 0 for
  the empty list. In particular a last partition ending at 4 GiB gives 4 GiB + 2 GiB
  aligned down.
\<close>

theorem size_of_last_partition:
  "size_of filesystems
     = align_down
         ((if filesystems = [] then 0
           else if 0 < end_offset (last filesystems) then end_offset (last filesystems)
           else begin_offset (last filesystems))
          + 2 * 1024 * 1024 * 1024) 4096
   \<and> (filesystems \<noteq> [] \<and> end_offset (last filesystems) = 4 * 1024 * 1024 * 1024
        \<longrightarrow> size_of filesystems
              = align_down (4 * 1024 * 1024 * 1024 + 2 * 1024 * 1024 * 1024) 4096)"
proof -
  have al: "\<And>n :: int. n - n mod 4096 = align_down n 4096"
    by (simp add: align_down_def minus_mod_eq_div_mult)
  have "size_of filesystems = align_down (size_loop filesystems 0 + 2 * 1024 * 1024 * 1024) 4096"
    by (simp add: size_of_def Let_def al)
  then have main: "size_of filesystems
     = align_down
         ((if filesystems = [] then 0
           else if 0 < end_offset (last filesystems) then end_offset (last filesystems)
           else begin_offset (last filesystems))
          + 2 * 1024 * 1024 * 1024) 4096"
    by (simp only: size_loop_last [of filesystems 0])
  show ?thesis
  proof (rule conjI [OF main], rule impI)
    assume "filesystems \<noteq> [] \<and> end_offset (last filesystems) = 4 * 1024 * 1024 * 1024"
    then show "size_of filesystems
        = align_down (4 * 1024 * 1024 * 1024 + 2 * 1024 * 1024 * 1024) 4096"
      using main by simp
  qed
qed

text \<open>Witness for claim C4, amended: two partitions, the last one ending at 4 GiB.\<close>

theorem size_of_last_partition_witness:
  "four_gib_filesystems \<noteq> []
   \<and> end_offset (last four_gib_filesystems) = 4 * 1024 * 1024 * 1024
   \<and> size_of four_gib_filesystems = align_down (4 * 1024 * 1024 * 1024 + 2 * 1024 * 1024 * 1024) 4096
   \<and> size_of four_gib_filesystems = 6442450944"
proof -
  have h: "four_gib_filesystems \<noteq> [] \<and> end_offset (last four_gib_filesystems) = 4 * 1024 * 1024 * 1024"
    by (simp add: four_gib_filesystems_def)
  from size_of_last_partition [of four_gib_filesystems] h
  have e: "size_of four_gib_filesystems
      = align_down (4 * 1024 * 1024 * 1024 + 2 * 1024 * 1024 * 1024) 4096"
    by blast
  have v: "align_down (4 * 1024 * 1024 * 1024 + 2 * 1024 * 1024 * 1024) 4096 = 6442450944"
    by (simp add: align_down_def)
  show ?thesis using h e v by simp
qed

section \<open>C3: partitions of equal mount depth\<close>

text \<open>
  Claim C3 says that partitions of equal depth keep their script order in the descending
  order as well. The descending order is the ascending one reversed as a whole, so two
  partitions of depth 2 are unmounted in the reverse of their script order.
\<close>

theorem umount_ties_reversed_counterexample:
  "mount_depth (tie_filesystems ! 0) = mount_depth (tie_filesystems ! 1)
   \<and> npart (tie_filesystems ! 0) < npart (tie_filesystems ! 1)
   \<and> mount_order False tie_filesystems = [tie_filesystems ! 1, tie_filesystems ! 0]"
  by (simp add: tie_filesystems_def mount_depth_def mount_order_def sort_key_def)

text \<open>
  Claim C3, amended. For every list of partitions, the order used for mounting is
  ascending in depth and keeps partitions of equal depth in script order; the order used
  for unmounting is exactly the reverse of the mounting order, so there partitions of
  equal depth appear in reverse script order.
\<close>

theorem mount_order_ties:
  "sorted (map mount_depth (mount_order True filesystems))
   \<and> filter (\<lambda>m. mount_depth m = k) (mount_order True filesystems)
       = filter (\<lambda>m. mount_depth m = k) filesystems
   \<and> mount_order False filesystems = rev (mount_order True filesystems)
   \<and> filter (\<lambda>m. mount_depth m = k) (mount_order False filesystems)
       = rev (filter (\<lambda>m. mount_depth m = k) filesystems)"
  by (simp add: mount_order_def sort_key_stable rev_filter [symmetric])

section \<open>C6: an unsupported filesystem kind\<close>

lemmas cmd_eval =
  mkfs_disk_def mkfs_cmds_def mkfs_cmd_def reprobe_def make_partition_def basename_def
  startswith_def str_int_def str_nat.simps stopped_def

lemma mkfs_loop_unsupported:
  assumes "\<exists>m \<in> set filesystems. fs m \<noteq> ''fat32'' \<and> fs m \<noteq> ''ext4''"
  shows "\<exists>kind. mkfs_loop env device_path filesystems cmds
                 = Inl (RuntimeError (''Unsupported filesystem: '' @ kind))"
  using assms
proof (induction filesystems arbitrary: cmds)
  case Nil
  then show ?case by simp
next
  case (Cons m rest)
  show ?case
  proof (cases "fs m = ''fat32'' \<or> fs m = ''ext4''")
    case True
    then obtain cmd where c: "mkfs_cmd env device_path m = Inr cmd"
      by (auto simp: mkfs_cmd_def)
    from True Cons.prems have "\<exists>m \<in> set rest. fs m \<noteq> ''fat32'' \<and> fs m \<noteq> ''ext4''"
      by auto
    from Cons.IH [OF this, of "cmds @ [cmd]"] c show ?thesis by simp
  next
    case False
    then have "mkfs_cmd env device_path m = Inl (RuntimeError (''Unsupported filesystem: '' @ fs m))"
      by (simp add: mkfs_cmd_def)
    then show ?thesis by simp
  qed
qed

text \<open>
  Claim C6. In mkfs mode, when some partition of the parsed script has a filesystem kind
  other than \<open>fat32\<close> and \<open>ext4\<close>, the run ends with the error for an unsupported
  filesystem and without having run any process or echoed any command: no filesystem is
  created, also for the partitions whose kind is supported, and neither \<open>partprobe\<close>
  nor \<open>partx\<close> runs; the world is unchanged.
\<close>

theorem mkfs_unsupported_runs_nothing:
  assumes "parse_script pb script = Inr (parted, filesystems)"
    and "\<exists>m \<in> set filesystems. fs m \<noteq> ''fat32'' \<and> fs m \<noteq> ''ext4''"
  shows "executed (mkfs_disk pb env device_path script w) = []
       \<and> echoed (mkfs_disk pb env device_path script w) = []
       \<and> world (mkfs_disk pb env device_path script w) = w
       \<and> (\<exists>kind. raised (mkfs_disk pb env device_path script w)
                    = Some (RuntimeError (''Unsupported filesystem: '' @ kind)))"
proof -
  from mkfs_loop_unsupported [OF assms(2), of env device_path "[]"] obtain kind where
    "mkfs_loop env device_path filesystems [] = Inl (RuntimeError (''Unsupported filesystem: '' @ kind))"
    by blast
  then have "mkfs_disk pb env device_path script w
      = stopped (RuntimeError (''Unsupported filesystem: '' @ kind)) [] w"
    using assms(1) by (simp add: mkfs_disk_def mkfs_cmds_def)
  then show ?thesis by (simp add: stopped_def)
qed

text \<open>
  Witness for claim C6: an ext4 partition followed by a btrfs partition; nothing runs,
  not even the command for the ext4 partition.
\<close>

theorem mkfs_unsupported_runs_nothing_witness:
  "parse_script parse_bytes btrfs_script
     = Inr ([[''mkpart'', ''primary'', ''ext4'', ''1MiB'', ''1GiB''],
             [''mkpart'', ''primary'', ''btrfs'', ''1GiB'', ''100%'']],
            [\<lparr>npart = 1, fs = ''ext4'', label = ''root'', reserved = [], mount = [],
              begin_offset = 1048576, end_offset = 1073741824\<rparr>,
             \<lparr>npart = 2, fs = ''btrfs'', label = ''data'', reserved = [], mount = [],
              begin_offset = 1073741824, end_offset = 0\<rparr>])
   \<and> executed (mkfs_disk parse_bytes (sample_env [] []) ''/dev/sda'' btrfs_script 0) = []
   \<and> world (mkfs_disk parse_bytes (sample_env [] []) ''/dev/sda'' btrfs_script 0) = 0
   \<and> raised (mkfs_disk parse_bytes (sample_env [] []) ''/dev/sda'' btrfs_script 0)
       = Some (RuntimeError ''Unsupported filesystem: btrfs'')"
proof -
  let ?fss = "[\<lparr>npart = 1, fs = ''ext4'', label = ''root'', reserved = [], mount = [],
              begin_offset = 1048576, end_offset = 1073741824\<rparr>,
             \<lparr>npart = 2, fs = ''btrfs'', label = ''data'', reserved = [], mount = [],
              begin_offset = 1073741824, end_offset = 0\<rparr>]"
  have h: "parse_script parse_bytes btrfs_script
     = Inr ([[''mkpart'', ''primary'', ''ext4'', ''1MiB'', ''1GiB''],
             [''mkpart'', ''primary'', ''btrfs'', ''1GiB'', ''100%'']], ?fss)"
    by (simp add: btrfs_script_def parse_eval parse_bytes_eval)
  have b: "\<exists>m \<in> set ?fss. fs m \<noteq> ''fat32'' \<and> fs m \<noteq> ''ext4''"
    by simp
  have r: "raised (mkfs_disk parse_bytes (sample_env [] []) ''/dev/sda'' btrfs_script 0)
       = Some (RuntimeError ''Unsupported filesystem: btrfs'')"
    using h by (simp add: cmd_eval)
  from mkfs_unsupported_runs_nothing [OF h b, of "sample_env [] []" "''/dev/sda''" 0]
  show ?thesis using h r by simp
qed

section \<open>C9: the scenario of one root partition\<close>

text \<open>
  Claim C9. For the one-line script \<open>mkpart primary ext4 1MiB 100% # label=root mount=\<close>
  on the device \<open>/dev/sda\<close>, mkfs mode builds and runs exactly three commands in this
  order: the ext4 creator with \<open>-L root\<close> on \<open>/dev/sda1\<close>, then \<open>partprobe /dev/sda\<close>,
  then \<open>partx -vu /dev/sda\<close>, each program being what the search of the executable path
  returns for its name. The only thing asked of the size parser is that it reads \<open>1MiB\<close>.
\<close>

theorem mkfs_root_scenario:
  assumes "pb ''1MiB'' = Some b"
  shows "parse_script pb ''mkpart primary ext4 1MiB 100% # label=root mount=''
           = Inr ([[''mkpart'', ''primary'', ''ext4'', ''1MiB'', ''100%'']],
                  [\<lparr>npart = 1, fs = ''ext4'', label = ''root'', reserved = [], mount = [],
                    begin_offset = b, end_offset = 0\<rparr>])
       \<and> mkfs_cmds env ''/dev/sda''
            [\<lparr>npart = 1, fs = ''ext4'', label = ''root'', reserved = [], mount = [],
              begin_offset = b, end_offset = 0\<rparr>]
           = Inr [[which env ''mkfs.ext4'', Some ''-L'', Some ''root'', Some ''/dev/sda1''],
                  [which env ''partprobe'', Some ''/dev/sda''],
                  [which env ''partx'', Some ''-vu'', Some ''/dev/sda'']]
       \<and> mkfs_disk pb env ''/dev/sda'' ''mkpart primary ext4 1MiB 100% # label=root mount='' w
           = run_commands env
               [[which env ''mkfs.ext4'', Some ''-L'', Some ''root'', Some ''/dev/sda1''],
                [which env ''partprobe'', Some ''/dev/sda''],
                [which env ''partx'', Some ''-vu'', Some ''/dev/sda'']] w"
proof -
  have p: "parse_script pb ''mkpart primary ext4 1MiB 100% # label=root mount=''
           = Inr ([[''mkpart'', ''primary'', ''ext4'', ''1MiB'', ''100%'']],
                  [\<lparr>npart = 1, fs = ''ext4'', label = ''root'', reserved = [], mount = [],
                    begin_offset = b, end_offset = 0\<rparr>])"
    using assms by (simp add: parse_eval)
  have c: "mkfs_cmds env ''/dev/sda''
            [\<lparr>npart = 1, fs = ''ext4'', label = ''root'', reserved = [], mount = [],
              begin_offset = b, end_offset = 0\<rparr>]
           = Inr [[which env ''mkfs.ext4'', Some ''-L'', Some ''root'', Some ''/dev/sda1''],
                  [which env ''partprobe'', Some ''/dev/sda''],
                  [which env ''partx'', Some ''-vu'', Some ''/dev/sda'']]"
    by (simp add: mkfs_cmds_def mkfs_cmd_def reprobe_def make_partition_def basename_def
        startswith_def str_int_def str_nat.simps)
  have d: "mkfs_disk pb env ''/dev/sda'' ''mkpart primary ext4 1MiB 100% # label=root mount='' w
           = run_commands env
               [[which env ''mkfs.ext4'', Some ''-L'', Some ''root'', Some ''/dev/sda1''],
                [which env ''partprobe'', Some ''/dev/sda''],
                [which env ''partx'', Some ''-vu'', Some ''/dev/sda'']] w"
    by (simp only: mkfs_disk_def p c sum.case prod.case)
  show ?thesis by (intro conjI p c d)
qed

text \<open>
  Witness for claim C9: on a host where every program resolves and succeeds, the three
  processes run in this order.
\<close>

theorem mkfs_root_scenario_witness:
  "parse_bytes ''1MiB'' = Some 1048576
   \<and> executed (mkfs_disk parse_bytes (sample_env [] []) ''/dev/sda''
        ''mkpart primary ext4 1MiB 100% # label=root mount='' 0)
       = [([''/usr/bin/mkfs.ext4'', ''-L'', ''root'', ''/dev/sda1''], 0),
          ([''/usr/bin/partprobe'', ''/dev/sda''], 0),
          ([''/usr/bin/partx'', ''-vu'', ''/dev/sda''], 0)]
   \<and> raised (mkfs_disk parse_bytes (sample_env [] []) ''/dev/sda''
        ''mkpart primary ext4 1MiB 100% # label=root mount='' 0) = None"
proof -
  have h: "parse_bytes ''1MiB'' = Some 1048576"
    by (simp add: parse_bytes_eval)
  from mkfs_root_scenario [of parse_bytes 1048576 "sample_env [] []" 0, OF h]
  have "mkfs_disk parse_bytes (sample_env [] []) ''/dev/sda''
          ''mkpart primary ext4 1MiB 100% # label=root mount='' 0
        = run_commands (sample_env [] [])
               [[which (sample_env [] []) ''mkfs.ext4'', Some ''-L'', Some ''root'', Some ''/dev/sda1''],
                [which (sample_env [] []) ''partprobe'', Some ''/dev/sda''],
                [which (sample_env [] []) ''partx'', Some ''-vu'', Some ''/dev/sda'']] 0"
    by blast
  then show ?thesis using h by (simp add: sample_env_def)
qed

section \<open>Facts about running commands\<close>

lemma run_commands_unrunnable:
  assumes "argv_of env cmd = None"
  shows "executed (run_commands env (cmd # cmds) w) = []"
    and "raised (run_commands env (cmd # cmds) w) \<noteq> None"
  using assms
  by (auto simp: argv_of_def stopped_def Let_def split: option.splits list.splits)

lemma run_commands_failed:
  assumes "argv_of env cmd = Some argv"
    and "subprocess_run env argv w = (rc, w')"
    and "rc \<noteq> 0"
  shows "executed (run_commands env (cmd # cmds) w) = [(argv, rc)]"
    and "raised (run_commands env (cmd # cmds) w) = Some (SystemExit 1)"
    and "world (run_commands env (cmd # cmds) w) = w'"
  using assms
  by (auto simp: argv_of_def stopped_def Let_def split: option.splits list.splits)

lemma run_commands_passed:
  assumes "argv_of env cmd = Some argv"
    and "subprocess_run env argv w = (rc, w')"
    and "rc = 0"
  shows "executed (run_commands env (cmd # cmds) w) = (argv, 0) # executed (run_commands env cmds w')"
    and "raised (run_commands env (cmd # cmds) w) = raised (run_commands env cmds w')"
    and "world (run_commands env (cmd # cmds) w) = world (run_commands env cmds w')"
  using assms
  by (auto simp: argv_of_def stopped_def Let_def split: option.splits list.splits)

lemma executed_prefix:
  "map (\<lambda>p. Some (fst p)) (executed (run_commands env cmds w))
     = map (argv_of env) (take (length (executed (run_commands env cmds w))) cmds)"
proof (induction cmds arbitrary: w)
  case Nil
  then show ?case by simp
next
  case (Cons cmd cmds)
  show ?case
  proof (cases "argv_of env cmd")
    case None
    then show ?thesis by (simp add: run_commands_unrunnable(1) del: run_commands.simps)
  next
    case (Some argv)
    obtain rc w' where run: "subprocess_run env argv w = (rc, w')"
      by (cases "subprocess_run env argv w")
    show ?thesis
    proof (cases "rc = 0")
      case True
      show ?thesis
        using Cons.IH [of w'] Some
        by (simp add: run_commands_passed(1) [OF Some run True] del: run_commands.simps)
    next
      case False
      show ?thesis
        using Some
        by (simp add: run_commands_failed(1) [OF Some run False] del: run_commands.simps)
    qed
  qed
qed

lemma failure_is_last:
  assumes "i < length (executed (run_commands env cmds w))"
    and "snd (executed (run_commands env cmds w) ! i) \<noteq> 0"
  shows "length (executed (run_commands env cmds w)) = Suc i
       \<and> raised (run_commands env cmds w) = Some (SystemExit 1)"
  using assms
proof (induction cmds arbitrary: w i)
  case Nil
  then show ?case by simp
next
  case (Cons cmd cmds)
  show ?case
  proof (cases "argv_of env cmd")
    case None
    with Cons.prems(1) show ?thesis
      by (simp add: run_commands_unrunnable(1) del: run_commands.simps)
  next
    case (Some argv)
    obtain rc w' where run: "subprocess_run env argv w = (rc, w')"
      by (cases "subprocess_run env argv w")
    show ?thesis
    proof (cases "rc = 0")
      case False
      note f = run_commands_failed [OF Some run False, of cmds]
      from Cons.prems(1) have "i = 0" by (simp add: f(1) del: run_commands.simps)
      then show ?thesis by (simp add: f del: run_commands.simps)
    next
      case True
      note p = run_commands_passed [OF Some run True, of cmds]
      show ?thesis
      proof (cases i)
        case 0
        with Cons.prems(2) show ?thesis by (simp add: p(1) del: run_commands.simps)
      next
        case (Suc j)
        from Cons.prems Suc
        have "j < length (executed (run_commands env cmds w'))"
          and "snd (executed (run_commands env cmds w') ! j) \<noteq> 0"
          by (simp_all add: p(1) del: run_commands.simps)
        from Cons.IH [OF this] Suc show ?thesis
          by (simp add: p del: run_commands.simps)
      qed
    qed
  qed
qed



section \<open>C5: the first failing command ends the run\<close>

text \<open>
  Claim C5. For every command sequence, host and starting world: if the process run at
  position \<open>i\<close> exits with a non-zero status, then it is the last process run, the run
  ends with \<open>SystemExit(1)\<close>, and the processes run are exactly the commands at the
  positions 0 to \<open>i\<close> of the sequence, each once and in order: nothing after
  position \<open>i\<close> runs and nothing is run to undo the commands before it.
\<close>

theorem run_commands_stops_at_failure:
  assumes "i < length (executed (run_commands env cmds w))"
    and "snd (executed (run_commands env cmds w) ! i) \<noteq> 0"
  shows "raised (run_commands env cmds w) = Some (SystemExit 1)
       \<and> length (executed (run_commands env cmds w)) = Suc i
       \<and> map (\<lambda>p. Some (fst p)) (executed (run_commands env cmds w))
           = map (argv_of env) (take (Suc i) cmds)"
proof -
  from failure_is_last [OF assms]
  have n: "length (executed (run_commands env cmds w)) = Suc i"
    and r: "raised (run_commands env cmds w) = Some (SystemExit 1)"
    by simp_all
  from executed_prefix [of env cmds w] n
  have "map (\<lambda>p. Some (fst p)) (executed (run_commands env cmds w))
           = map (argv_of env) (take (Suc i) cmds)"
    by simp
  with n r show ?thesis by simp
qed

text \<open>
  Witness for claim C5: \<open>partprobe\<close>, the second of three commands, exits with status 1;
  \<open>partx\<close> is not run.
\<close>

theorem run_commands_stops_at_failure_witness:
  "executed (run_commands (sample_env [] [''/usr/bin/partprobe'']) resolved_cmds 0)
     = [([''/usr/bin/mkfs.ext4'', ''-L'', ''root'', ''/dev/sda1''], 0),
        ([''/usr/bin/partprobe'', ''/dev/sda''], 1)]
   \<and> raised (run_commands (sample_env [] [''/usr/bin/partprobe'']) resolved_cmds 0)
       = Some (SystemExit 1)
   \<and> length resolved_cmds = 3"
proof -
  let ?r = "run_commands (sample_env [] [''/usr/bin/partprobe'']) resolved_cmds 0"
  have e: "executed ?r
     = [([''/usr/bin/mkfs.ext4'', ''-L'', ''root'', ''/dev/sda1''], 0),
        ([''/usr/bin/partprobe'', ''/dev/sda''], 1)]"
    by (simp add: sample_env_def resolved_cmds_def)
  have a: "1 < length (executed ?r)" by (simp add: e)
  have b: "snd (executed ?r ! 1) \<noteq> 0" by (simp add: e)
  from run_commands_stops_at_failure [OF a b]
  have "raised ?r = Some (SystemExit 1)" by blast
  then show ?thesis using e by (simp add: resolved_cmds_def)
qed

section \<open>C2: a program that cannot be resolved\<close>





end
